theory Spec2Isabelle
  imports Complex_Main "HOL-Library.Word"
begin

section \<open>Strings\<close>

text \<open>
  A JavaScript string is a sequence of UTF-16 code units. A code unit is modelled by its
  number, a string by the list of its code units. ASCII literals are written through
  \<open>js\<close>.
\<close>

type_synonym jsstring = "nat list"

definition js :: "string \<Rightarrow> jsstring" where
  "js s = map of_char s"

definition is_lower_az :: "nat \<Rightarrow> bool" where
  \<comment> \<open>the character class \<open>[a-z]\<close>\<close>
  "is_lower_az u \<longleftrightarrow> 97 \<le> u \<and> u \<le> 122"

definition is_upper_az :: "nat \<Rightarrow> bool" where
  \<comment> \<open>the character class \<open>[A-Z]\<close>\<close>
  "is_upper_az u \<longleftrightarrow> 65 \<le> u \<and> u \<le> 90"

definition is_digit :: "nat \<Rightarrow> bool" where
  \<comment> \<open>the character class \<open>\d\<close>, which is \<open>[0-9]\<close> also under the \<open>u\<close> flag\<close>
  "is_digit u \<longleftrightarrow> 48 \<le> u \<and> u \<le> 57"

definition is_high_surrogate :: "nat \<Rightarrow> bool" where
  "is_high_surrogate u \<longleftrightarrow> 55296 \<le> u \<and> u \<le> 56319"

definition is_low_surrogate :: "nat \<Rightarrow> bool" where
  "is_low_surrogate u \<longleftrightarrow> 56320 \<le> u \<and> u \<le> 57343"

text \<open>
  \<open>for (const character of data)\<close> iterates over code points: a high surrogate followed by
  a low surrogate is one character of two code units, every other code unit is a character
  of its own.
\<close>

fun code_points :: "jsstring \<Rightarrow> jsstring list" where
  "code_points [] = []"
| "code_points [u] = [[u]]"
| "code_points (u # v # rest) =
     (if is_high_surrogate u \<and> is_low_surrogate v then [u, v] # code_points rest
      else [u] # code_points (v # rest))"

section \<open>The word tokenizer (src/util.ts, words)\<close>

definition WHITESPACE :: "nat list" where
  "WHITESPACE =
     [0x9, 0xA, 0xB, 0xC, 0xD, 0x20, 0x85, 0xA0, 0x1680, 0x2000, 0x2001, 0x2002, 0x2003,
      0x2004, 0x2005, 0x2006, 0x2007, 0x2008, 0x2009, 0x200A, 0x2028, 0x2029, 0x202F,
      0x205F, 0x3000, 0xFEFF]"

definition WORD_SEPARATORS :: "jsstring list" where
  \<comment> \<open>\<open>new Set(["-", "_", ...WHITESPACE])\<close>: every member is a string of one code unit\<close>
  "WORD_SEPARATORS = map (\<lambda>u. [u]) ([0x2D, 0x5F] @ WHITESPACE)"

text \<open>The loop state of \<open>words\<close>: the array \<open>results\<close> and the buffer \<open>word\<close>.\<close>

type_synonym words_state = "jsstring list \<times> jsstring"

definition flush :: "words_state \<Rightarrow> words_state" where
  "flush st = (case st of (results, word) \<Rightarrow>
     if length word > 0 then (results @ [word], []) else (results, word))"

definition ends_lower :: "jsstring \<Rightarrow> bool" where
  \<comment> \<open>\<open>/[a-z]$/u.test(word)\<close>\<close>
  "ends_lower word \<longleftrightarrow> word \<noteq> [] \<and> is_lower_az (last word)"

definition ends_upper_upper :: "jsstring \<Rightarrow> bool" where
  \<comment> \<open>\<open>/[A-Z][A-Z]$/u.test(word)\<close>\<close>
  "ends_upper_upper word \<longleftrightarrow>
     length word \<ge> 2 \<and> is_upper_az (last (butlast word)) \<and> is_upper_az (last word)"

definition ends_digit :: "jsstring \<Rightarrow> bool" where
  \<comment> \<open>\<open>/\d$/u.test(word)\<close>\<close>
  "ends_digit word \<longleftrightarrow> word \<noteq> [] \<and> is_digit (last word)"

definition has_upper :: "jsstring \<Rightarrow> bool" where
  \<comment> \<open>\<open>/[A-Z]/u.test(character)\<close>\<close>
  "has_upper character \<longleftrightarrow> list_ex is_upper_az character"

definition has_lower :: "jsstring \<Rightarrow> bool" where
  \<comment> \<open>\<open>/[a-z]/u.test(character)\<close>\<close>
  "has_lower character \<longleftrightarrow> list_ex is_lower_az character"

definition has_digit :: "jsstring \<Rightarrow> bool" where
  \<comment> \<open>\<open>/\d/u.test(character)\<close>\<close>
  "has_digit character \<longleftrightarrow> list_ex is_digit character"

definition words_step :: "words_state \<Rightarrow> jsstring \<Rightarrow> words_state" where
  \<comment> \<open>one iteration of the loop body, for the character \<open>character\<close>\<close>
  "words_step st character =
     (if character \<in> set WORD_SEPARATORS then flush st
      else
        let (results, word) =
          (if ends_lower (snd st) \<and> has_upper character then flush st
           else if ends_upper_upper (snd st) \<and> has_lower character then
             (let lastCharacter = [last (snd st)];
                  (results', _) = flush (fst st, butlast (snd st))
              in (results', lastCharacter))
           else if ends_digit (snd st) \<noteq> has_digit character then flush st
           else st)
        in (results, word @ character))"

definition words :: "jsstring \<Rightarrow> jsstring list" where
  "words data = fst (flush (foldl words_step ([], []) (code_points data)))"

section \<open>The case normalizer (src/util.ts, toCamelCase and toCamelCaseKeys)\<close>

text \<open>
  \<open>String.prototype.toLowerCase\<close> and \<open>toUpperCase\<close> are the Unicode case conversions of
  the JavaScript engine; their tables are not part of the repository. The normalizer is
  therefore defined over a pair of conversions, and every general theorem below holds for
  whatever conversions are supplied.
\<close>

record casing =
  toLowerCase :: "jsstring \<Rightarrow> jsstring"
  toUpperCase :: "jsstring \<Rightarrow> jsstring"

definition capitalize :: "casing \<Rightarrow> nat \<Rightarrow> jsstring \<Rightarrow> jsstring" where
  \<comment> \<open>the callback of \<open>.map\<close>: \<open>word[0]\<close> is the first code unit, absent on the empty string\<close>
  "capitalize cs index word =
     (case word of
        [] \<Rightarrow> []
      | u # rest \<Rightarrow>
          (if index = 0 then toLowerCase cs [u] else toUpperCase cs [u]) @ rest)"

definition toCamelCase :: "casing \<Rightarrow> jsstring \<Rightarrow> jsstring" where
  "toCamelCase cs data =
     (let ws = words (if has_lower data then data else toLowerCase cs data)
      in concat (map (\<lambda>(index, word). capitalize cs index word) (enumerate 0 ws)))"

text \<open>
  The conversions on the code units U+0000 to U+00FF (Basic Latin and Latin-1 Supplement).
  Code units above U+00FF are outside this table and are left as they are, so \<open>latin1\<close>
  stands for the engine's conversions on strings of code units up to U+00FF only; it is
  used to evaluate the normalizer on such strings.
\<close>

definition lower_unit :: "nat \<Rightarrow> jsstring" where
  "lower_unit u =
     (if is_upper_az u then [u + 32]
      else if 0xC0 \<le> u \<and> u \<le> 0xDE \<and> u \<noteq> 0xD7 then [u + 32]
      else [u])"

definition upper_unit :: "nat \<Rightarrow> jsstring" where
  "upper_unit u =
     (if is_lower_az u then [u - 32]
      else if 0xE0 \<le> u \<and> u \<le> 0xFE \<and> u \<noteq> 0xF7 then [u - 32]
      else if u = 0xDF then [0x53, 0x53]
      else if u = 0xB5 then [0x39C]
      else if u = 0xFF then [0x178]
      else [u])"

definition latin1 :: casing where
  "latin1 = \<lparr> toLowerCase = (\<lambda>s. concat (map lower_unit s)),
              toUpperCase = (\<lambda>s. concat (map upper_unit s)) \<rparr>"

subsection \<open>JSON values and property order\<close>

text \<open>
  A JSON value as \<open>resp.json()\<close> returns it. Numbers pass through the normalizer
  untouched, so their type is left open. An object is the list of its own properties in
  the order \<open>Object.entries\<close> enumerates them.
\<close>

datatype 'n json =
    JNull
  | JBool bool
  | JNumber 'n
  | JString jsstring
  | JArray "'n json list"
  | JObject "(jsstring \<times> 'n json) list"

text \<open>
  An ordinary object enumerates its array-index keys first, in ascending numeric order,
  and then its other string keys in the order of their creation. A key is an array index
  when it is the decimal representation of an integer below \<open>2^32 - 1\<close>.
\<close>

fun decimal :: "nat \<Rightarrow> jsstring" where
  "decimal n = (if n < 10 then [48 + n] else decimal (n div 10) @ [48 + n mod 10])"

definition decimal_value :: "jsstring \<Rightarrow> nat" where
  "decimal_value s = foldl (\<lambda>acc u. 10 * acc + (u - 48)) 0 s"

definition array_index :: "jsstring \<Rightarrow> nat option" where
  "array_index k =
     (if k \<noteq> [] \<and> list_all is_digit k \<and> decimal (decimal_value k) = k
         \<and> decimal_value k < 2 ^ 32 - 1
      then Some (decimal_value k) else None)"

fun insert_index :: "nat \<Rightarrow> jsstring \<times> 'v \<Rightarrow> (jsstring \<times> 'v) list \<Rightarrow> (jsstring \<times> 'v) list" where
  "insert_index i kv [] = [kv]"
| "insert_index i kv (p # ps) =
     (case array_index (fst p) of
        Some j \<Rightarrow> if j < i then p # insert_index i kv ps else kv # p # ps
      | None \<Rightarrow> kv # p # ps)"

definition set_property :: "jsstring \<Rightarrow> 'v \<Rightarrow> (jsstring \<times> 'v) list \<Rightarrow> (jsstring \<times> 'v) list" where
  \<comment> \<open>\<open>result[key] = value\<close> on an ordinary object: an existing property keeps its place\<close>
  "set_property k v ps =
     (if k \<in> fst ` set ps then map (\<lambda>(k', v'). if k' = k then (k', v) else (k', v')) ps
      else case array_index k of
        Some i \<Rightarrow> insert_index i (k, v) ps
      | None \<Rightarrow> ps @ [(k, v)])"

fun toCamelCaseKeys :: "casing \<Rightarrow> 'n json \<Rightarrow> 'n json" where
  "toCamelCaseKeys cs (JArray items) = JArray (map (toCamelCaseKeys cs) items)"
| "toCamelCaseKeys cs (JObject entries) =
     JObject (fold (\<lambda>(key, val) result.
                set_property (toCamelCase cs key) (toCamelCaseKeys cs val) result) entries [])"
| "toCamelCaseKeys cs v = v"

text \<open>All keys of a value, at any depth.\<close>

fun keys_of :: "'n json \<Rightarrow> jsstring list" where
  "keys_of (JArray items) = concat (map keys_of items)"
| "keys_of (JObject entries) = concat (map (\<lambda>(key, val). key # keys_of val) entries)"
| "keys_of v = []"

text \<open>
  The enumeration order of an ordinary object, as a relation between an earlier and a later
  key: the keys are distinct, array indices come first and ascend.
\<close>

definition key_before :: "jsstring \<Rightarrow> jsstring \<Rightarrow> bool" where
  "key_before k k' \<longleftrightarrow>
     k \<noteq> k' \<and>
     (case array_index k' of
        None \<Rightarrow> True
      | Some j \<Rightarrow> (case array_index k of None \<Rightarrow> False | Some i \<Rightarrow> i < j))"

definition property_order :: "(jsstring \<times> 'v) list \<Rightarrow> bool" where
  "property_order ps \<longleftrightarrow> sorted_wrt key_before (map fst ps)"

section \<open>Address blocklists (the \<open>net.BlockList\<close> of the Node.js runtime)\<close>

text \<open>
  \<open>BlockList\<close> belongs to the runtime, not to the repository. The client uses two of its
  methods, \<open>addSubnet(net, prefix, family)\<close> and \<open>check(address, family)\<close>, whose
  \<open>family\<close> argument is \<open>'ipv4'\<close> when omitted. Both turn the text into a socket address
  of the given family first; \<open>check\<close> answers \<open>false\<close> when the text is not an address of
  that family. An IPv4 address is compared with an IPv6 subnet through its IPv4-mapped
  form \<open>::ffff:a.b.c.d\<close>, and an IPv6 address with an IPv4 subnet only when it has that
  form.
\<close>

datatype family = IPv4 | IPv6

datatype address = V4 "32 word" | V6 "128 word"

fun split_at :: "nat \<Rightarrow> jsstring \<Rightarrow> jsstring list" where
  \<comment> \<open>the pieces of a string between the occurrences of a separator\<close>
  "split_at sep [] = [[]]"
| "split_at sep (u # us) =
     (if u = sep then [] # split_at sep us
      else (case split_at sep us of
              [] \<Rightarrow> [[u]]
            | piece # pieces \<Rightarrow> (u # piece) # pieces))"

definition octet :: "jsstring \<Rightarrow> nat option" where
  \<comment> \<open>a decimal number up to 255, with no leading zero\<close>
  "octet s =
     (if s \<noteq> [] \<and> list_all is_digit s \<and> (length s = 1 \<or> hd s \<noteq> 48) \<and> decimal_value s \<le> 255
      then Some (decimal_value s) else None)"

definition parse_ipv4 :: "jsstring \<Rightarrow> 32 word option" where
  "parse_ipv4 s =
     (case map octet (split_at 46 s) of
        [Some a, Some b, Some c, Some d] \<Rightarrow> Some (of_nat (((a * 256 + b) * 256 + c) * 256 + d))
      | _ \<Rightarrow> None)"

definition hex_digit :: "nat \<Rightarrow> nat option" where
  "hex_digit u =
     (if is_digit u then Some (u - 48)
      else if 97 \<le> u \<and> u \<le> 102 then Some (u - 87)
      else if 65 \<le> u \<and> u \<le> 70 then Some (u - 55)
      else None)"

definition hextet :: "jsstring \<Rightarrow> nat option" where
  \<comment> \<open>one to four hexadecimal digits\<close>
  "hextet s =
     (if s \<noteq> [] \<and> length s \<le> 4 \<and> list_all (\<lambda>u. hex_digit u \<noteq> None) s
      then Some (foldl (\<lambda>acc u. 16 * acc + the (hex_digit u)) 0 s) else None)"

definition hextets :: "bool \<Rightarrow> jsstring \<Rightarrow> nat list option" where
  \<comment> \<open>colon-separated groups; where \<open>tail\<close> holds, the last group may be a dotted quad\<close>
  "hextets tail s =
     (if s = [] then Some []
      else
        let pieces = split_at 58 s;
            groups = map hextet (butlast pieces);
            final = (case hextet (last pieces) of
                       Some g \<Rightarrow> Some [g]
                     | None \<Rightarrow>
                         (if tail then
                            (case parse_ipv4 (last pieces) of
                               Some q \<Rightarrow> Some [unat (drop_bit 16 q), unat (take_bit 16 q)]
                             | None \<Rightarrow> None)
                          else None))
        in if list_all (\<lambda>g. g \<noteq> None) groups \<and> final \<noteq> None
           then Some (map the groups @ the final) else None)"

fun find_gap :: "jsstring \<Rightarrow> jsstring \<Rightarrow> (jsstring \<times> jsstring) option" where
  \<comment> \<open>the text before and after the first \<open>::\<close>\<close>
  "find_gap before (u # v # rest) =
     (if u = 58 \<and> v = 58 then Some (rev before, rest) else find_gap (u # before) (v # rest))"
| "find_gap before rest = None"

definition join_hextets :: "nat list \<Rightarrow> 128 word" where
  "join_hextets gs = foldl (\<lambda>acc g. push_bit 16 acc + of_nat g) 0 gs"

definition parse_ipv6 :: "jsstring \<Rightarrow> 128 word option" where
  \<comment> \<open>an address without a zone id; the client passes none\<close>
  "parse_ipv6 s =
     (case find_gap [] s of
        None \<Rightarrow>
          (case hextets True s of
             Some gs \<Rightarrow> if length gs = 8 then Some (join_hextets gs) else None
           | None \<Rightarrow> None)
      | Some (left, right) \<Rightarrow>
          (case (hextets False left, hextets True right) of
             (Some ls, Some rs) \<Rightarrow>
               if length ls + length rs \<le> 7
               then Some (join_hextets (ls @ replicate (8 - length ls - length rs) 0 @ rs))
               else None
           | _ \<Rightarrow> None))"

definition socket_address :: "jsstring \<Rightarrow> family \<Rightarrow> address option" where
  \<comment> \<open>\<open>new SocketAddress({address, family})\<close>; \<open>None\<close> where it throws\<close>
  "socket_address text fam =
     (case fam of
        IPv4 \<Rightarrow> map_option V4 (parse_ipv4 text)
      | IPv6 \<Rightarrow> map_option V6 (parse_ipv6 text))"

definition mapped :: "32 word \<Rightarrow> 128 word" where
  \<comment> \<open>the IPv4-mapped IPv6 address \<open>::ffff:a.b.c.d\<close>\<close>
  "mapped a = push_bit 32 0xFFFF + ucast a"

fun is_in_network :: "address \<Rightarrow> address \<Rightarrow> nat \<Rightarrow> bool" where
  "is_in_network (V4 ip) (V4 net) prefix \<longleftrightarrow>
     drop_bit (32 - prefix) ip = drop_bit (32 - prefix) net"
| "is_in_network (V6 ip) (V6 net) prefix \<longleftrightarrow>
     drop_bit (128 - prefix) ip = drop_bit (128 - prefix) net"
| "is_in_network (V4 ip) (V6 net) prefix \<longleftrightarrow>
     drop_bit (128 - prefix) (mapped ip) = drop_bit (128 - prefix) net"
| "is_in_network (V6 ip) (V4 net) prefix \<longleftrightarrow>
     drop_bit 32 ip = 0xFFFF \<and>
     drop_bit (32 - prefix) (ucast ip :: 32 word) = drop_bit (32 - prefix) net"

text \<open>A blocklist is the list of its subnet rules: network address and prefix length.\<close>

type_synonym blocklist = "(address \<times> nat) list"

definition addSubnet :: "jsstring \<Rightarrow> nat \<Rightarrow> family \<Rightarrow> blocklist \<Rightarrow> blocklist option" where
  \<comment> \<open>\<open>None\<close> where the call throws: no address of the family, or a prefix out of range\<close>
  "addSubnet net prefix fam rules =
     (case socket_address net fam of
        None \<Rightarrow> None
      | Some a \<Rightarrow>
          if prefix \<le> (case fam of IPv4 \<Rightarrow> 32 | IPv6 \<Rightarrow> 128) then Some ((a, prefix) # rules)
          else None)"

definition check :: "blocklist \<Rightarrow> jsstring \<Rightarrow> family \<Rightarrow> bool" where
  "check rules text fam =
     (case socket_address text fam of
        None \<Rightarrow> False
      | Some a \<Rightarrow> list_ex (\<lambda>(net, prefix). is_in_network a net prefix) rules)"

section \<open>The client class \<open>TailscaleLocalApi\<close>\<close>

subsection \<open>What the client reads from the process and the file system\<close>

text \<open>
  A file-system call that throws is \<open>Inl\<close> of the message of the error thrown.
\<close>

record world =
  platform :: jsstring
  env :: "jsstring \<Rightarrow> jsstring option"
  existsSync :: "jsstring \<Rightarrow> bool"
  readlinkSync :: "jsstring \<Rightarrow> jsstring + jsstring"
  readFileSync :: "jsstring \<Rightarrow> jsstring + jsstring"

datatype environment = Windows | Macos | Unix | Container

datatype error =
    Error jsstring
  | FetchFailed
  | URIError

fun string_includes :: "jsstring \<Rightarrow> jsstring \<Rightarrow> bool" where
  \<comment> \<open>\<open>String.prototype.includes\<close>\<close>
  "string_includes [] t \<longleftrightarrow> t = []"
| "string_includes (u # us) t \<longleftrightarrow> take (length t) (u # us) = t \<or> string_includes us t"

definition isRunningInContainer :: "world \<Rightarrow> bool" where
  "isRunningInContainer w =
     (if existsSync w (js ''/.dockerenv'') then True
      else if (case env w (js ''KUBERNETES_SERVICE_HOST'') of None \<Rightarrow> False | Some v \<Rightarrow> v \<noteq> [])
        then True
      else if platform w = js ''linux'' then
        (case readFileSync w (js ''/proc/1/cgroup'') of
           Inl _ \<Rightarrow> False
         | Inr cgroupContent \<Rightarrow>
             if string_includes cgroupContent (js ''docker'') \<or> string_includes cgroupContent (js ''kubepods'')
                \<or> string_includes cgroupContent (js ''lxc'')
             then True else False)
      else False)"

definition interrogateEnvironment :: "world \<Rightarrow> environment" where
  "interrogateEnvironment w =
     (if isRunningInContainer w then Container
      else if platform w = js ''win32'' then Windows
      else if platform w = js ''darwin'' then Macos
      else Unix)"

subsection \<open>Credential discovery\<close>

definition is_js_space :: "nat \<Rightarrow> bool" where
  \<comment> \<open>white space and line terminators, as \<open>trim\<close> and \<open>parseInt\<close> skip them\<close>
  "is_js_space u \<longleftrightarrow>
     u \<in> set [0x9, 0xA, 0xB, 0xC, 0xD, 0x20, 0xA0, 0x1680, 0x2000, 0x2001, 0x2002, 0x2003,
              0x2004, 0x2005, 0x2006, 0x2007, 0x2008, 0x2009, 0x200A, 0x2028, 0x2029, 0x202F,
              0x205F, 0x3000, 0xFEFF]"

definition trim :: "jsstring \<Rightarrow> jsstring" where
  "trim s = rev (dropWhile is_js_space (rev (dropWhile is_js_space s)))"

text \<open>
  \<open>parseInt(s, 10)\<close>: leading white space, an optional sign and the longest run of decimal
  digits; \<open>None\<close> stands for \<open>NaN\<close>. The result is the integer read, which the
  number type of JavaScript holds exactly below \<open>2^53\<close>.
\<close>

definition parseInt :: "jsstring \<Rightarrow> int option" where
  "parseInt s =
     (let t = dropWhile is_js_space s;
          (sign, r) = (case t of
                         [] \<Rightarrow> (1, t)
                       | u # r \<Rightarrow> if u = 45 then (- 1, r) else if u = 43 then (1, r) else (1, t));
          ds = takeWhile is_digit r
      in if ds = [] then None else Some (sign * int (decimal_value ds)))"

definition getCredentialsFromSameuserProof :: "world \<Rightarrow> error + (int \<times> jsstring)" where
  "getCredentialsFromSameuserProof w =
     (let failed = (\<lambda>message. Inl (Error (js ''Failed to read credentials: '' @ message)))
      in case readlinkSync w (js ''/Library/Tailscale/ipnport'') of
           Inl message \<Rightarrow> failed message
         | Inr portStr \<Rightarrow>
             (case parseInt portStr of
                None \<Rightarrow> failed (js ''Invalid port number: '' @ portStr)
              | Some port \<Rightarrow>
                  (case readFileSync w (js ''/Library/Tailscale/sameuserproof-'' @ portStr) of
                     Inl message \<Rightarrow> failed message
                   | Inr authBytes \<Rightarrow>
                       let auth = trim authBytes
                       in if auth = [] then failed (js ''Empty auth token in sameuserproof file'')
                          else Inr (port, auth))))"

subsection \<open>The client and its construction\<close>

text \<open>
  The function stored in the field \<open>fetch\<close> is one of the two closures \<open>createFetchFn\<close>
  returns: the one that dispatches through an \<open>Agent\<close> connected to a socket path, or the
  one that adds the credentials of the localhost TCP port.
\<close>

datatype fetch_fn = SocketFetch jsstring | TcpFetch

record client =
  baseUrl :: jsstring
  tailscaleCidr :: blocklist
  socketPath :: jsstring
  adapterPort :: "int option"
  adapterPassword :: "jsstring option"
  maxRetries :: nat
  retryDelay :: real
  environment :: environment
  useSocketOnly :: bool
  fetch :: fetch_fn

record TailscaleLocalApiOptions =
  opt_socketPath :: "jsstring option"
  opt_useSocketOnly :: "bool option"

definition number_text :: "int \<Rightarrow> jsstring" where
  \<comment> \<open>the text of an integer in a template string\<close>
  "number_text i = (if i < 0 then 45 # decimal (nat (- i)) else decimal (nat i))"

definition createFetchFn :: "client \<Rightarrow> client" where
  "createFetchFn this =
     (if useSocketOnly this \<or> environment this \<noteq> Macos
      then this\<lparr>fetch := SocketFetch (socketPath this)\<rparr>
      else this\<lparr>baseUrl := js ''http://127.0.0.1:'' @
                    (case adapterPort this of
                       None \<Rightarrow> js ''undefined''
                     | Some port \<Rightarrow> number_text port),
                fetch := TcpFetch\<rparr>)"

text \<open>
  The constructor. Its console output is left out. The connection probe it starts last,
  \<open>connectWithRetry(0)\<close>, runs after the constructor has returned and is modelled on its
  own below.
\<close>

definition "constructor" :: "world \<Rightarrow> TailscaleLocalApiOptions option \<Rightarrow> error + client" where
  "constructor w options =
     (let useSocketOnly' =
            (case Option.bind options opt_useSocketOnly of None \<Rightarrow> False | Some b \<Rightarrow> b);
          environment' = interrogateEnvironment w;
          socketPath' =
            (case Option.bind options opt_socketPath of
               Some path \<Rightarrow> path
             | None \<Rightarrow>
                 if environment' = Container then js ''/tmp/tailscaled.sock''
                 else js ''/var/run/tailscaled.socket'')
      in case Option.bind (addSubnet (js ''100.64.0.0'') 10 IPv4 [])
                (addSubnet (js ''fd7a:115c:a1e0::'') 48 IPv6) of
           None \<Rightarrow> Inl (Error (js ''Invalid address''))
         | Some cidr \<Rightarrow>
             let this = \<lparr> baseUrl = js ''http://local-tailscaled.sock'',
                          tailscaleCidr = cidr,
                          socketPath = socketPath',
                          adapterPort = None,
                          adapterPassword = None,
                          maxRetries = 5,
                          retryDelay = 5000,
                          environment = environment',
                          useSocketOnly = useSocketOnly',
                          fetch = SocketFetch socketPath' \<rparr>
             in if environment' = Macos then
                  (case getCredentialsFromSameuserProof w of
                     Inl e \<Rightarrow> Inl e
                   | Inr (port, auth) \<Rightarrow>
                       Inr (createFetchFn
                             (this\<lparr>adapterPort := Some port, adapterPassword := Some auth\<rparr>)))
                else Inr (createFetchFn this))"

subsection \<open>Requests\<close>

text \<open>
  A request as \<open>fetch\<close> of undici receives it. The value of a header is a text, or the
  \<open>Basic\<close> credentials whose Base64 text encodes the given string. A body is absent, the
  JSON text of a value, or raw data. The dispatcher is the socket path of the \<open>Agent\<close>
  passed as \<open>dispatcher\<close>, or absent, and then undici uses its global dispatcher.
\<close>

datatype number = NaN | NegInfinity | Finite real | Infinity

datatype header_value = Text jsstring | Basic jsstring

datatype body = NoBody | JsonText "number json" | Raw "nat list"

record request =
  url :: jsstring
  req_method :: jsstring
  req_headers :: "(jsstring \<times> header_value) list"
  req_body :: body
  dispatcher :: "jsstring option"

record fetch_options =
  opt_method :: jsstring
  opt_headers :: "(jsstring \<times> header_value) list"
  opt_body :: body

definition default_options :: fetch_options where
  "default_options = \<lparr> opt_method = js ''GET'', opt_headers = [], opt_body = NoBody \<rparr>"

definition global_fetch :: "jsstring \<Rightarrow> fetch_options \<Rightarrow> request" where
  \<comment> \<open>\<open>fetch(url, {method, headers, body})\<close>, the function imported from undici\<close>
  "global_fetch u opts =
     \<lparr> url = u, req_method = opt_method opts, req_headers = opt_headers opts,
       req_body = opt_body opts, dispatcher = None \<rparr>"

definition this_fetch :: "client \<Rightarrow> jsstring \<Rightarrow> fetch_options \<Rightarrow> request" where
  \<comment> \<open>\<open>this.fetch(path, options)\<close>; the object spread lets the caller's headers win\<close>
  "this_fetch this path opts =
     (case fetch this of
        SocketFetch agent \<Rightarrow>
          \<lparr> url = baseUrl this @ path, req_method = opt_method opts,
            req_headers = opt_headers opts, req_body = opt_body opts,
            dispatcher = Some agent \<rparr>
      | TcpFetch \<Rightarrow>
          \<lparr> url = baseUrl this @ path, req_method = opt_method opts,
            req_headers =
              fold (\<lambda>(name, val). set_property name val)
                ([(js ''Authorization'',
                   Basic (js '':'' @ (case adapterPassword this of
                                        None \<Rightarrow> js ''undefined''
                                      | Some password \<Rightarrow> password))),
                  (js ''Host'', Text (js ''local-tailscaled.sock''))] @ opt_headers opts) [],
            req_body = opt_body opts,
            dispatcher = None \<rparr>)"

text \<open>
  The daemon answers a request with a response, or the request fails and \<open>fetch\<close>
  rejects. Header names of a response are looked up in lower case.
\<close>

record response =
  status :: nat
  resp_header :: "jsstring \<Rightarrow> jsstring option"
  resp_text :: jsstring
  resp_data :: "nat list"

definition ok :: "response \<Rightarrow> bool" where
  "ok resp \<longleftrightarrow> 200 \<le> status resp \<and> status resp \<le> 299"

type_synonym daemon = "request \<Rightarrow> response option"

subsection \<open>The connection probe\<close>

datatype event = Request request | SetTimeout real | Exit nat | Running

text \<open>
  \<open>connectWithRetry\<close>, with the events it causes in their order: the status request, and
  after a failed one either the timer that calls it again or the exit of the process. The
  daemon's answer may differ from one attempt to the next. \<open>Math.pow(1.5, retryCount)\<close> and
  its product with the delay are exact in binary floating point for the retry counts reached.
\<close>

function connectWithRetry :: "(nat \<Rightarrow> daemon) \<Rightarrow> client \<Rightarrow> nat \<Rightarrow> event list" where
  "connectWithRetry answer this retryCount =
     (let req = this_fetch this (js ''/localapi/v0/status'') default_options
      in Request req #
         (if (case answer retryCount req of None \<Rightarrow> False | Some resp \<Rightarrow> ok resp)
          then [Running]
          else if retryCount < maxRetries this then
            (let nextRetry = retryCount + 1;
                 delay = retryDelay this * (3 / 2) ^ retryCount
             in SetTimeout delay # connectWithRetry answer this nextRetry)
          else [Exit 1]))"
  by pat_completeness auto
termination
  by (relation "measure (\<lambda>(answer, this, retryCount). maxRetries this - retryCount)") auto

declare connectWithRetry.simps [simp del]

subsection \<open>Address classification\<close>

definition same_letter :: "nat \<Rightarrow> nat \<Rightarrow> bool" where
  \<comment> \<open>a pattern character against a text character under the \<open>i\<close> flag\<close>
  "same_letter p u \<longleftrightarrow> u = p \<or> (is_lower_az p \<and> u = p - 32)"

definition dotted_digits :: "jsstring \<Rightarrow> bool" where
  \<comment> \<open>the whole string matches \<open>\d+\.\d+\.\d+\.\d+\<close>\<close>
  "dotted_digits s \<longleftrightarrow>
     (let pieces = split_at 46 s
      in length pieces = 4 \<and> list_all (\<lambda>piece. piece \<noteq> [] \<and> list_all is_digit piece) pieces)"

fun mapped_match :: "jsstring \<Rightarrow> jsstring option" where
  \<comment> \<open>group 1 of the leftmost match of \<open>/::ffff:(\d+\.\d+\.\d+\.\d+)$/i\<close>\<close>
  "mapped_match [] = None"
| "mapped_match (u # us) =
     (if length (u # us) \<ge> 7 \<and> list_all2 same_letter (js ''::ffff:'') (take 7 (u # us))
         \<and> dotted_digits (drop 7 (u # us))
      then Some (drop 7 (u # us))
      else mapped_match us)"

definition isInTailscaleIpRange :: "client \<Rightarrow> jsstring \<Rightarrow> jsstring option" where
  \<comment> \<open>the result \<open>false\<close> is \<open>None\<close>; \<open>check\<close> is called without a family\<close>
  "isInTailscaleIpRange this ip =
     (case mapped_match ip of
        Some quad \<Rightarrow> if check (tailscaleCidr this) quad IPv4 then Some quad else None
      | None \<Rightarrow> if check (tailscaleCidr this) ip IPv4 then Some ip else None)"

subsection \<open>Calls of the local API\<close>

text \<open>
  A call returns its result, or the error it throws, together with the requests it has
  issued.
\<close>

definition less_than_zero :: "number \<Rightarrow> bool" where
  \<comment> \<open>\<open>delta < 0\<close>\<close>
  "less_than_zero d =
     (case d of NaN \<Rightarrow> False | NegInfinity \<Rightarrow> True | Finite r \<Rightarrow> r < 0 | Infinity \<Rightarrow> False)"

definition incrementCounter ::
  "daemon \<Rightarrow> client \<Rightarrow> jsstring \<Rightarrow> number \<Rightarrow> (error + unit) \<times> request list" where
  "incrementCounter answer this name delta =
     (if less_than_zero delta then (Inl (Error (js ''negative delta not allowed'')), [])
      else
        let updates = JArray [JObject [(js ''name'', JString name),
                                       (js ''type'', JString (js ''counter'')),
                                       (js ''value'', JNumber delta)]];
            req = global_fetch (baseUrl this @ js ''/localapi/v0/upload-client-metrics'')
                    \<lparr> opt_method = js ''POST'',
                      opt_headers = [(js ''Content-Type'', Text (js ''application/json''))],
                      opt_body = JsonText updates \<rparr>
        in case answer req of
             None \<Rightarrow> (Inl FetchFailed, [req])
           | Some resp \<Rightarrow>
               if \<not> ok resp
               then (Inl (Error (js ''Failed to increment counter: '' @ resp_text resp)), [req])
               else (Inr (), [req]))"

definition uri_unreserved :: "nat \<Rightarrow> bool" where
  "uri_unreserved u \<longleftrightarrow>
     is_lower_az u \<or> is_upper_az u \<or> is_digit u \<or> u \<in> set (js ''-_.!~*'' @ [39, 40, 41])"

definition utf8 :: "nat \<Rightarrow> nat list" where
  "utf8 cp =
     (if cp < 0x80 then [cp]
      else if cp < 0x800 then [0xC0 + cp div 64, 0x80 + cp mod 64]
      else if cp < 0x10000 then [0xE0 + cp div 4096, 0x80 + cp div 64 mod 64, 0x80 + cp mod 64]
      else [0xF0 + cp div 262144, 0x80 + cp div 4096 mod 64, 0x80 + cp div 64 mod 64,
            0x80 + cp mod 64])"

definition hex_upper :: "nat \<Rightarrow> nat" where
  "hex_upper n = (if n < 10 then 48 + n else 55 + n)"

definition percent :: "nat \<Rightarrow> jsstring" where
  "percent byte = [37, hex_upper (byte div 16), hex_upper (byte mod 16)]"

definition encode_character :: "jsstring \<Rightarrow> jsstring option" where
  \<comment> \<open>one code point: one code unit or a surrogate pair\<close>
  "encode_character character =
     (case character of
        [u] \<Rightarrow>
          if uri_unreserved u then Some [u]
          else if is_high_surrogate u \<or> is_low_surrogate u then None
          else Some (concat (map percent (utf8 u)))
      | [h, l] \<Rightarrow>
          Some (concat (map percent (utf8 (0x10000 + (h - 0xD800) * 0x400 + (l - 0xDC00)))))
      | _ \<Rightarrow> None)"

definition encodeURIComponent :: "jsstring \<Rightarrow> jsstring option" where
  \<comment> \<open>\<open>None\<close> where it throws a \<open>URIError\<close>: on a surrogate that has no partner\<close>
  "encodeURIComponent s =
     (let encoded = map encode_character (code_points s)
      in if list_all (\<lambda>e. e \<noteq> None) encoded then Some (concat (map the encoded)) else None)"

definition deleteWaitingFile ::
  "daemon \<Rightarrow> client \<Rightarrow> jsstring \<Rightarrow> (error + unit) \<times> request list" where
  "deleteWaitingFile answer this baseName =
     (case encodeURIComponent baseName of
        None \<Rightarrow> (Inl URIError, [])
      | Some encodedName \<Rightarrow>
          let req = this_fetch this (js ''/localapi/v0/files/'' @ encodedName)
                      \<lparr> opt_method = js ''DELETE'', opt_headers = [], opt_body = NoBody \<rparr>
          in case answer req of
               None \<Rightarrow> (Inl FetchFailed, [req])
             | Some resp \<Rightarrow>
                 if status resp \<noteq> 204
                 then (Inl (Error (js ''Failed to delete waiting file: '' @ resp_text resp)), [req])
                 else (Inr (), [req]))"

text \<open>
  \<open>getWaitingFile\<close> returns the data and, for the size, the text of the
  \<open>content-length\<close> header where there is a non-empty one; its conversion by \<open>Number\<close> is
  left to the reader of the result.
\<close>

definition getWaitingFile ::
  "daemon \<Rightarrow> client \<Rightarrow> jsstring \<Rightarrow> (error + (nat list \<times> jsstring option)) \<times> request list" where
  "getWaitingFile answer this baseName =
     (case encodeURIComponent baseName of
        None \<Rightarrow> (Inl URIError, [])
      | Some encodedName \<Rightarrow>
          let req = global_fetch (baseUrl this @ js ''/localapi/v0/files/'' @ encodedName)
                      default_options
          in case answer req of
               None \<Rightarrow> (Inl FetchFailed, [req])
             | Some resp \<Rightarrow>
                 if status resp \<noteq> 200
                 then (Inl (Error (js ''Failed to get waiting file: '' @ resp_text resp)), [req])
                 else if resp_header resp (js ''transfer-encoding'') = Some (js ''chunked'')
                 then (Inl (Error (js ''Unexpected chunking'')), [req])
                 else (Inr (resp_data resp,
                            (case resp_header resp (js ''content-length'') of
                               None \<Rightarrow> None
                             | Some t \<Rightarrow> if t = [] then None else Some t)), [req]))"

definition logout :: "daemon \<Rightarrow> client \<Rightarrow> (error + unit) \<times> request list" where
  "logout answer this =
     (let req = this_fetch this (js ''/localapi/v0/logout'')
                  \<lparr> opt_method = js ''POST'', opt_headers = [], opt_body = NoBody \<rparr>
      in case answer req of
           None \<Rightarrow> (Inl FetchFailed, [req])
         | Some resp \<Rightarrow>
             if status resp \<noteq> 204
             then (Inl (Error (js ''Failed to logout: '' @ resp_text resp)), [req])
             else (Inr (), [req]))"

subsection \<open>Machines and their files, for evaluating the client\<close>

text \<open>The subnet rules a constructed client holds.\<close>

definition tailscale_rules :: blocklist where
  "tailscale_rules = [(V6 0xfd7a115ca1e000000000000000000000, 48), (V4 0x64400000, 10)]"

definition nothing_there :: "jsstring \<Rightarrow> jsstring + jsstring" where
  "nothing_there path = Inl (js ''ENOENT: no such file or directory'')"

definition linux_machine :: world where
  "linux_machine =
     \<lparr> platform = js ''linux'', env = (\<lambda>name. None), existsSync = (\<lambda>path. False),
       readlinkSync = nothing_there, readFileSync = nothing_there \<rparr>"

definition mac_without_proof :: world where
  "mac_without_proof =
     \<lparr> platform = js ''darwin'', env = (\<lambda>name. None), existsSync = (\<lambda>path. False),
       readlinkSync = nothing_there, readFileSync = nothing_there \<rparr>"

definition mac_with_proof :: world where
  "mac_with_proof =
     \<lparr> platform = js ''darwin'', env = (\<lambda>name. None), existsSync = (\<lambda>path. False),
       readlinkSync = (\<lambda>path. if path = js ''/Library/Tailscale/ipnport'' then Inr (js ''12345'')
                                else nothing_there path),
       readFileSync = (\<lambda>path. if path = js ''/Library/Tailscale/sameuserproof-12345''
                                then Inr (js ''  deadbeef'' @ [10])
                                else nothing_there path) \<rparr>"

definition mac_in_docker :: world where
  "mac_in_docker =
     \<lparr> platform = js ''darwin'', env = (\<lambda>name. None),
       existsSync = (\<lambda>path. path = js ''/.dockerenv''),
       readlinkSync = nothing_there, readFileSync = nothing_there \<rparr>"

definition mac_empty_variable :: world where
  "mac_empty_variable =
     \<lparr> platform = js ''darwin'',
       env = (\<lambda>name. if name = js ''KUBERNETES_SERVICE_HOST'' then Some [] else None),
       existsSync = (\<lambda>path. False),
       readlinkSync = nothing_there, readFileSync = nothing_there \<rparr>"

definition socket_only :: TailscaleLocalApiOptions where
  "socket_only = \<lparr> opt_socketPath = None, opt_useSocketOnly = Some True \<rparr>"

text \<open>The probe with a given retry count gets no response with a success status.\<close>

definition probe_fails :: "(nat \<Rightarrow> daemon) \<Rightarrow> client \<Rightarrow> nat \<Rightarrow> bool" where
  "probe_fails answer this retryCount \<longleftrightarrow>
     (case answer retryCount (this_fetch this (js ''/localapi/v0/status'') default_options) of
        None \<Rightarrow> True
      | Some resp \<Rightarrow> \<not> ok resp)"

section \<open>Evaluation on ASCII literals\<close>

lemma js_Nil [simp]: "js [] = []"
  by (simp add: js_def)

lemma js_Cons [simp]: "js (c # cs) = of_char c # js cs"
  by (simp add: js_def)

lemmas class_simps =
  is_lower_az_def is_upper_az_def is_digit_def is_high_surrogate_def is_low_surrogate_def

lemmas words_simps =
  words_def words_step_def flush_def ends_lower_def ends_upper_upper_def ends_digit_def
  has_upper_def has_lower_def has_digit_def WORD_SEPARATORS_def WHITESPACE_def class_simps

lemmas camel_simps =
  toCamelCase_def capitalize_def latin1_def lower_unit_def upper_unit_def words_simps

lemmas object_simps = set_property_def array_index_def decimal_value_def

section \<open>Properties of property assignment\<close>

lemma array_index_inj:
  "array_index k = Some i \<Longrightarrow> array_index k' = Some i \<Longrightarrow> k = k'"
  by (metis array_index_def option.distinct(1) option.inject)

lemma set_insert_index: "set (insert_index i kv ps) = insert kv (set ps)"
  by (induction ps) (auto split: option.splits)

lemma insert_index_order:
  assumes "sorted_wrt key_before (map fst ps)" "array_index k = Some i" "k \<notin> fst ` set ps"
  shows "sorted_wrt key_before (map fst (insert_index i (k, v) ps))"
  using assms
proof (induction ps)
  case Nil
  then show ?case by simp
next
  case (Cons p ps)
  have sorted_ps: "sorted_wrt key_before (map fst ps)"
    and p_first: "\<forall>q\<in>set ps. key_before (fst p) (fst q)"
    and new: "k \<noteq> fst p" "k \<notin> fst ` set ps"
    using Cons.prems by auto
  show ?case
  proof (cases "array_index (fst p)")
    case None
    have "key_before k (fst p)" using new None by (simp add: key_before_def)
    moreover have "\<forall>q\<in>set ps. key_before k (fst q)"
    proof
      fix q assume "q \<in> set ps"
      then have "key_before (fst p) (fst q)" using p_first by blast
      then have "array_index (fst q) = None"
        using None by (auto simp: key_before_def split: option.splits)
      then show "key_before k (fst q)" using new \<open>q \<in> set ps\<close>
        by (auto simp: key_before_def)
    qed
    ultimately show ?thesis using None Cons.prems(1) by simp
  next
    case (Some j)
    show ?thesis
    proof (cases "j < i")
      case True
      have "key_before (fst p) k" using new Some True Cons.prems(2)
        by (simp add: key_before_def)
      then have "\<forall>q\<in>set (insert_index i (k, v) ps). key_before (fst p) (fst q)"
        using p_first by (auto simp: set_insert_index)
      moreover have "sorted_wrt key_before (map fst (insert_index i (k, v) ps))"
        using Cons.IH sorted_ps Cons.prems(2) new by blast
      ultimately show ?thesis using Some True by simp
    next
      case False
      have "j \<noteq> i" using Some Cons.prems(2) new array_index_inj by blast
      then have less: "i < j" using False by simp
      then have "key_before k (fst p)" using new Some Cons.prems(2)
        by (simp add: key_before_def)
      moreover have "\<forall>q\<in>set ps. key_before k (fst q)"
      proof
        fix q assume q: "q \<in> set ps"
        then have pq: "key_before (fst p) (fst q)" using p_first by blast
        have "k \<noteq> fst q" using new q by auto
        then show "key_before k (fst q)" using pq Some less Cons.prems(2)
          by (auto simp: key_before_def split: option.splits)
      qed
      ultimately show ?thesis using Some False Cons.prems(1) by simp
    qed
  qed
qed

lemma keys_overwrite:
  "map fst (map (\<lambda>(k', v'). if k' = k then (k', v) else (k', v')) ps) = map fst ps"
  by (induction ps) auto

lemma set_property_order:
  assumes "property_order ps"
  shows "property_order (set_property k v ps)"
proof (cases "k \<in> fst ` set ps")
  case True
  then have "map fst (set_property k v ps) = map fst ps"
    by (simp only: set_property_def if_True keys_overwrite)
  then show ?thesis using assms by (simp only: property_order_def)
next
  case False
  show ?thesis
  proof (cases "array_index k")
    case None
    then show ?thesis using False assms
      by (auto simp: set_property_def property_order_def sorted_wrt_append key_before_def)
  next
    case (Some i)
    then show ?thesis using False assms insert_index_order [of ps k i v]
      by (simp add: set_property_def property_order_def)
  qed
qed

lemma insert_index_last:
  "\<forall>p\<in>set ps. \<exists>j. array_index (fst p) = Some j \<and> j < i \<Longrightarrow> insert_index i kv ps = ps @ [kv]"
  by (induction ps) auto

lemma set_property_last:
  assumes "\<forall>p\<in>set ps. key_before (fst p) k"
  shows "set_property k v ps = ps @ [(k, v)]"
proof -
  have new: "k \<notin> fst ` set ps" using assms by (auto simp: key_before_def)
  show ?thesis
  proof (cases "array_index k")
    case None
    then show ?thesis using new by (simp add: set_property_def)
  next
    case (Some i)
    have "\<forall>p\<in>set ps. \<exists>j. array_index (fst p) = Some j \<and> j < i"
      using assms Some by (auto simp: key_before_def split: option.splits)
    then show ?thesis using new Some by (simp add: set_property_def insert_index_last)
  qed
qed

lemma rebuild_ordered:
  "property_order (acc @ es) \<Longrightarrow> fold (\<lambda>(k, v). set_property k v) es acc = acc @ es"
proof (induction es arbitrary: acc)
  case Nil
  then show ?case by simp
next
  case (Cons e es)
  obtain k v where e: "e = (k, v)" by (cases e)
  have "\<forall>p\<in>set acc. key_before (fst p) k"
    using Cons.prems by (auto simp: property_order_def sorted_wrt_append e)
  then have "set_property k v acc = acc @ [(k, v)]" by (rule set_property_last)
  then show ?case using Cons.IH [of "acc @ [(k, v)]"] Cons.prems by (simp add: e)
qed

lemma fold_set_property_order:
  "property_order acc \<Longrightarrow> property_order (fold (\<lambda>(k, v). set_property k v) es acc)"
  by (induction es arbitrary: acc) (auto simp: set_property_order)

lemma set_set_property: "set (set_property k v ps) \<subseteq> insert (k, v) (set ps)"
proof -
  show ?thesis using set_insert_index [of _ _ ps] by (auto simp: set_property_def split: option.splits if_splits)
qed

lemma set_fold_set_property:
  "set (fold (\<lambda>(k, v). set_property k v) es acc) \<subseteq> set acc \<union> set es"
proof (induction es arbitrary: acc)
  case Nil
  then show ?case by simp
next
  case (Cons e es)
  obtain k v where e: "e = (k, v)" by (cases e)
  show ?case using Cons.IH [of "set_property k v acc"] set_set_property [of k v acc]
    by (auto simp: e)
qed

lemma toCamelCaseKeys_JObject:
  "toCamelCaseKeys cs (JObject entries) =
     JObject (fold (\<lambda>(k, v). set_property k v)
       (map (\<lambda>(key, val). (toCamelCase cs key, toCamelCaseKeys cs val)) entries) [])"
proof -
  have "fold (\<lambda>(key, val) result. set_property (toCamelCase cs key) (toCamelCaseKeys cs val) result) es acc
      = fold (\<lambda>(k, v). set_property k v) (map (\<lambda>(key, val). (toCamelCase cs key, toCamelCaseKeys cs val)) es) acc"
    for es acc
    by (induction es arbitrary: acc) auto
  then show ?thesis by simp
qed

section \<open>Character classes of the tokenizer\<close>

lemma non_ascii_no_class:
  "list_all (\<lambda>u. 128 \<le> u) ch \<Longrightarrow> \<not> has_upper ch \<and> \<not> has_lower ch \<and> \<not> has_digit ch"
  by (induction ch) (auto simp: has_upper_def has_lower_def has_digit_def class_simps)

section \<open>Construction of the client\<close>

lemma replicate_numeral: "replicate (numeral k) x = x # replicate (pred_numeral k) x"
  by (simp add: numeral_eq_Suc)

lemmas ip_simps = replicate_numeral socket_address_def parse_ipv4_def parse_ipv6_def octet_def
  hextet_def hextets_def hex_digit_def join_hextets_def decimal_value_def class_simps mapped_def
  addSubnet_def check_def

lemma subnets_added:
  "Option.bind (addSubnet (js ''100.64.0.0'') 10 IPv4 []) (addSubnet (js ''fd7a:115c:a1e0::'') 48 IPv6)
     = Some tailscale_rules"
  by (simp add: ip_simps tailscale_rules_def)

lemma constructor_fields:
  assumes "constructor w options = Inr this"
  shows "tailscaleCidr this = tailscale_rules" "maxRetries this = 5" "retryDelay this = 5000"
    "environment this = interrogateEnvironment w"
    "useSocketOnly this = (case Option.bind options opt_useSocketOnly of None \<Rightarrow> False | Some b \<Rightarrow> b)"
  using assms unfolding constructor_def subnets_added
  by (auto simp: createFetchFn_def Let_def split: if_splits sum.splits prod.splits)

lemma constructor_credentials:
  assumes "constructor w options = Inr this"
  shows "(adapterPort this \<noteq> None) = (environment this = Macos)"
    "(adapterPassword this \<noteq> None) = (environment this = Macos)"
  using assms unfolding constructor_def subnets_added
  by (auto simp: createFetchFn_def Let_def split: if_splits sum.splits prod.splits)

lemma constructor_fetch:
  assumes "constructor w options = Inr this"
  shows "fetch this = (if useSocketOnly this \<or> environment this \<noteq> Macos
                       then SocketFetch (socketPath this) else TcpFetch)"
  using assms unfolding constructor_def subnets_added
  by (auto simp: createFetchFn_def Let_def split: if_splits sum.splits prod.splits)

lemma constructor_not_macos:
  assumes "interrogateEnvironment w \<noteq> Macos"
  shows "\<exists>this. constructor w options = Inr this"
  using assms unfolding constructor_def subnets_added by (simp add: Let_def)


lemmas world_simps = linux_machine_def mac_without_proof_def mac_with_proof_def mac_in_docker_def
  mac_empty_variable_def nothing_there_def socket_only_def

lemmas env_simps = interrogateEnvironment_def isRunningInContainer_def

lemmas cred_simps = getCredentialsFromSameuserProof_def parseInt_def trim_def is_js_space_def
  decimal_value_def class_simps number_text_def

lemma linux_machine_client:
  "constructor linux_machine options =
     Inr \<lparr> baseUrl = js ''http://local-tailscaled.sock'', tailscaleCidr = tailscale_rules,
           socketPath = (case Option.bind options opt_socketPath of
                           None \<Rightarrow> js ''/var/run/tailscaled.socket'' | Some path \<Rightarrow> path),
           adapterPort = None,
           adapterPassword = None, maxRetries = 5, retryDelay = 5000, environment = Unix,
           useSocketOnly = (case Option.bind options opt_useSocketOnly of None \<Rightarrow> False | Some b \<Rightarrow> b),
           fetch = SocketFetch (case Option.bind options opt_socketPath of
                           None \<Rightarrow> js ''/var/run/tailscaled.socket'' | Some path \<Rightarrow> path) \<rparr>"
  unfolding constructor_def subnets_added
  by (simp add: world_simps env_simps createFetchFn_def Let_def)

lemma mac_with_proof_client:
  "constructor mac_with_proof options =
     Inr \<lparr> baseUrl = (if (case Option.bind options opt_useSocketOnly of None \<Rightarrow> False | Some b \<Rightarrow> b)
                       then js ''http://local-tailscaled.sock'' else js ''http://127.0.0.1:12345''),
           tailscaleCidr = tailscale_rules,
           socketPath = (case Option.bind options opt_socketPath of
                           None \<Rightarrow> js ''/var/run/tailscaled.socket'' | Some path \<Rightarrow> path),
           adapterPort = Some 12345,
           adapterPassword = Some (js ''deadbeef''), maxRetries = 5, retryDelay = 5000,
           environment = Macos,
           useSocketOnly = (case Option.bind options opt_useSocketOnly of None \<Rightarrow> False | Some b \<Rightarrow> b),
           fetch = (if (case Option.bind options opt_useSocketOnly of None \<Rightarrow> False | Some b \<Rightarrow> b)
                    then SocketFetch (case Option.bind options opt_socketPath of
                           None \<Rightarrow> js ''/var/run/tailscaled.socket'' | Some path \<Rightarrow> path)
                    else TcpFetch) \<rparr>"
  unfolding constructor_def subnets_added
  by (simp add: world_simps env_simps createFetchFn_def cred_simps Let_def)

lemmas request_simps = this_fetch_def global_fetch_def default_options_def

lemmas uri_simps = encodeURIComponent_def encode_character_def uri_unreserved_def utf8_def
  percent_def hex_upper_def class_simps

lemmas range_simps = isInTailscaleIpRange_def dotted_digits_def same_letter_def tailscale_rules_def

section \<open>Steps of the connection probe\<close>

lemma probe_retry:
  "probe_fails answer this n \<Longrightarrow> n < maxRetries this \<Longrightarrow>
   connectWithRetry answer this n =
     Request (this_fetch this (js ''/localapi/v0/status'') default_options) #
     SetTimeout (retryDelay this * (3 / 2) ^ n) # connectWithRetry answer this (Suc n)"
  by (subst connectWithRetry.simps) (simp add: probe_fails_def Let_def split: option.splits)

lemma probe_exit:
  "probe_fails answer this n \<Longrightarrow> \<not> n < maxRetries this \<Longrightarrow>
   connectWithRetry answer this n =
     [Request (this_fetch this (js ''/localapi/v0/status'') default_options), Exit 1]"
  by (subst connectWithRetry.simps) (simp add: probe_fails_def Let_def split: option.splits)

lemma probe_running:
  "\<not> probe_fails answer this n \<Longrightarrow>
   connectWithRetry answer this n =
     [Request (this_fetch this (js ''/localapi/v0/status'') default_options), Running]"
  by (subst connectWithRetry.simps) (simp add: probe_fails_def Let_def split: option.splits)

section \<open>Requests issued by the calls\<close>

lemma incrementCounter_requests:
  "\<not> less_than_zero delta \<Longrightarrow>
   snd (incrementCounter answer this name delta)
     = [global_fetch (baseUrl this @ js ''/localapi/v0/upload-client-metrics'')
          \<lparr> opt_method = js ''POST'',
            opt_headers = [(js ''Content-Type'', Text (js ''application/json''))],
            opt_body = JsonText (JArray [JObject [(js ''name'', JString name),
                                                  (js ''type'', JString (js ''counter'')),
                                                  (js ''value'', JNumber delta)]]) \<rparr>]"
  by (simp add: incrementCounter_def Let_def split: option.splits)

lemma logout_requests:
  "snd (logout answer this)
     = [this_fetch this (js ''/localapi/v0/logout'')
          \<lparr> opt_method = js ''POST'', opt_headers = [], opt_body = NoBody \<rparr>]"
  by (simp add: logout_def Let_def split: option.splits)

lemma deleteWaitingFile_requests:
  "encodeURIComponent baseName = Some encodedName \<Longrightarrow>
   snd (deleteWaitingFile answer this baseName)
     = [this_fetch this (js ''/localapi/v0/files/'' @ encodedName)
          \<lparr> opt_method = js ''DELETE'', opt_headers = [], opt_body = NoBody \<rparr>]"
  by (simp add: deleteWaitingFile_def Let_def split: option.splits)

lemma getWaitingFile_requests:
  "encodeURIComponent baseName = Some encodedName \<Longrightarrow>
   snd (getWaitingFile answer this baseName)
     = [global_fetch (baseUrl this @ js ''/localapi/v0/files/'' @ encodedName) default_options]"
  by (simp add: getWaitingFile_def Let_def split: option.splits)

section \<open>Claims\<close>

text \<open>
  C5 (as amended). The tokenizer applied to \<open>"HELLOWorld"\<close> returns the two segments
  \<open>["HELLO", "World"]\<close>: when the lowercase \<open>o\<close> arrives the buffer is \<open>HELLOW\<close>, its
  last letter \<open>W\<close> starts the next word and the rest, \<open>HELLO\<close>, is flushed.
\<close>

theorem words_HELLOWorld:
  "words (js ''HELLOWorld'') = [js ''HELLO'', js ''World'']"
  by (simp add: words_simps)

text \<open>
  C5 (as stated). The segments \<open>["HELL", "OWorld"]\<close> are not what the tokenizer returns
  on \<open>"HELLOWorld"\<close>.
\<close>

theorem words_HELLOWorld_not_HELL_OWorld:
  "words (js ''HELLOWorld'') \<noteq> [js ''HELL'', js ''OWorld'']"
  by (simp add: words_simps)

text \<open>
  C6 (as amended). \<open>toCamelCaseKeys\<close> is idempotent on every JSON value whose keys, at
  any depth, are stable under a second \<open>toCamelCase\<close>: if
  \<open>toCamelCase(toCamelCase(k)) = toCamelCase(k)\<close> for every key \<open>k\<close> of \<open>x\<close>, then
  \<open>toCamelCaseKeys(toCamelCaseKeys(x)) = toCamelCaseKeys(x)\<close>, whatever the case
  conversions are.
\<close>

theorem toCamelCaseKeys_idempotent_on_stable_keys:
  "\<forall>k\<in>set (keys_of x). toCamelCase cs (toCamelCase cs k) = toCamelCase cs k \<Longrightarrow>
   toCamelCaseKeys cs (toCamelCaseKeys cs x) = toCamelCaseKeys cs x"
proof (induction x)
  case (JArray items)
  then show ?case by (auto intro!: map_idI simp del: toCamelCaseKeys.simps(2))
next
  case (JObject entries)
  let ?f = "\<lambda>(key, val). (toCamelCase cs key, toCamelCaseKeys cs val)"
  let ?R = "fold (\<lambda>(k, v). set_property k v) (map ?f entries) []"
  have stable: "?f (?f e) = ?f e" if "e \<in> set entries" for e
  proof -
    obtain k v where e: "e = (k, v)" by (cases e)
    have "k \<in> set (keys_of (JObject entries))" using that e by force
    then have 1: "toCamelCase cs (toCamelCase cs k) = toCamelCase cs k"
      using JObject.prems by blast
    have "set (keys_of v) \<subseteq> set (keys_of (JObject entries))" using that e by force
    then have 2: "toCamelCaseKeys cs (toCamelCaseKeys cs v) = toCamelCaseKeys cs v"
      using JObject.IH [of e v] JObject.prems that e by auto
    show ?thesis using 1 2 by (simp add: e)
  qed
  have "set ?R \<subseteq> ?f ` set entries" using set_fold_set_property [of "map ?f entries" "[]"] by simp
  then have "map ?f ?R = ?R" using stable by (intro map_idI) auto
  moreover have "property_order ?R"
    by (rule fold_set_property_order) (simp add: property_order_def)
  then have "fold (\<lambda>(k, v). set_property k v) ?R [] = ?R"
    using rebuild_ordered [of "[]" ?R] by simp
  ultimately show ?case by (simp only: toCamelCaseKeys_JObject)
qed simp_all

theorem toCamelCaseKeys_idempotent_on_stable_keys_witness:
  "keys_of (JObject [(js ''user_id'', JArray [JObject [(js ''IPAddress'', JNumber (1::int))]])])
     = [js ''user_id'', js ''IPAddress'']
   \<and> toCamelCase latin1 (js ''user_id'') = js ''userId''
   \<and> toCamelCase latin1 (js ''userId'') = js ''userId''
   \<and> toCamelCase latin1 (js ''IPAddress'') = js ''iPAddress''
   \<and> toCamelCase latin1 (js ''iPAddress'') = js ''iPAddress''
   \<and> toCamelCaseKeys latin1 (toCamelCaseKeys latin1
        (JObject [(js ''user_id'', JArray [JObject [(js ''IPAddress'', JNumber (1::int))]])]))
     = toCamelCaseKeys latin1
        (JObject [(js ''user_id'', JArray [JObject [(js ''IPAddress'', JNumber (1::int))]])])"
proof -
  let ?x = "JObject [(js ''user_id'', JArray [JObject [(js ''IPAddress'', JNumber (1::int))]])]"
  have stable: "\<forall>k\<in>set (keys_of ?x). toCamelCase latin1 (toCamelCase latin1 k) = toCamelCase latin1 k"
    by (simp add: camel_simps)
  have "toCamelCaseKeys latin1 (toCamelCaseKeys latin1 ?x) = toCamelCaseKeys latin1 ?x"
    using toCamelCaseKeys_idempotent_on_stable_keys [OF stable] .
  moreover have "toCamelCase latin1 (js ''user_id'') = js ''userId''"
    and "toCamelCase latin1 (js ''userId'') = js ''userId''"
    and "toCamelCase latin1 (js ''IPAddress'') = js ''iPAddress''"
    and "toCamelCase latin1 (js ''iPAddress'') = js ''iPAddress''"
    by (simp_all add: camel_simps)
  ultimately show ?thesis by simp
qed

text \<open>
  C6 (as stated). \<open>toCamelCaseKeys\<close> is not idempotent on every JSON value: the object
  \<open>{"1_a_b": null}\<close> becomes \<open>{"1AB": null}\<close>, and a second pass, finding no lowercase
  letter in \<open>1AB\<close>, lowercases it before tokenizing and yields \<open>{"1Ab": null}\<close>.
\<close>

theorem toCamelCaseKeys_not_idempotent:
  "toCamelCaseKeys latin1 (JObject [(js ''1_a_b'', JNull)]) = JObject [(js ''1AB'', JNull)]
   \<and> toCamelCaseKeys latin1 (toCamelCaseKeys latin1 (JObject [(js ''1_a_b'', JNull)]))
       = JObject [(js ''1Ab'', JNull)]
   \<and> toCamelCaseKeys latin1 (toCamelCaseKeys latin1 (JObject [(js ''1_a_b'', JNull)]))
       \<noteq> toCamelCaseKeys latin1 (JObject [(js ''1_a_b'', JNull)])"
  by (simp add: camel_simps object_simps)

text \<open>
  C10. The case-transition rules of the tokenizer see ASCII letters only. A character made
  of non-ASCII code units (such as U+00C9 or U+00E9) that is not a separator is appended
  with no case boundary: the buffer is flushed before it only by the digit rule. After a
  buffer that ends in a non-ASCII code unit, the next character opens a new word only by
  the digit rule. After a buffer whose last code unit but one is non-ASCII, the
  uppercase-run rule does not apply: the next character opens a new word only by the
  lowercase-to-uppercase rule or the digit rule, and the buffer is never cut before its
  last code unit. And \<open>toCamelCase\<close> tokenizes the lowercased key whenever no code unit
  of the key is an ASCII lowercase letter, whatever non-ASCII letters it contains.
\<close>

theorem case_rules_ascii_only:
  "(list_all (\<lambda>u. 128 \<le> u) character \<and> character \<notin> set WORD_SEPARATORS \<longrightarrow>
      words_step (results, word) character =
        (if ends_digit word then (fst (flush (results, word)), snd (flush (results, word)) @ character)
         else (results, word @ character)))
   \<and> (word \<noteq> [] \<and> 128 \<le> last word \<and> character \<notin> set WORD_SEPARATORS \<longrightarrow>
      words_step (results, word) character =
        (if has_digit character then (fst (flush (results, word)), snd (flush (results, word)) @ character)
         else (results, word @ character)))
   \<and> (2 \<le> length word \<and> 128 \<le> last (butlast word) \<and> character \<notin> set WORD_SEPARATORS \<longrightarrow>
      words_step (results, word) character =
        (if (97 \<le> last word \<and> last word \<le> 122 \<and> list_ex (\<lambda>u. 65 \<le> u \<and> u \<le> 90) character)
            \<or> ends_digit word \<noteq> has_digit character
         then (results @ [word], character)
         else (results, word @ character)))
   \<and> (list_all (\<lambda>u. u < 97 \<or> 122 < u) data \<longrightarrow>
      toCamelCase cs data =
        concat (map (\<lambda>(index, word). capitalize cs index word)
          (enumerate 0 (words (toLowerCase cs data)))))"
proof (intro conjI impI)
  assume "list_all (\<lambda>u. 128 \<le> u) character \<and> character \<notin> set WORD_SEPARATORS"
  then show "words_step (results, word) character =
        (if ends_digit word then (fst (flush (results, word)), snd (flush (results, word)) @ character)
         else (results, word @ character))"
    using non_ascii_no_class [of character]
    by (simp add: words_step_def split: prod.splits)
next
  assume a: "word \<noteq> [] \<and> 128 \<le> last word \<and> character \<notin> set WORD_SEPARATORS"
  then have "\<not> ends_lower word" "\<not> ends_upper_upper word" "\<not> ends_digit word"
    by (auto simp: ends_lower_def ends_upper_upper_def ends_digit_def class_simps)
  then show "words_step (results, word) character =
        (if has_digit character then (fst (flush (results, word)), snd (flush (results, word)) @ character)
         else (results, word @ character))"
    using a by (simp add: words_step_def split: prod.splits)
next
  assume a: "2 \<le> length word \<and> 128 \<le> last (butlast word) \<and> character \<notin> set WORD_SEPARATORS"
  then have run: "\<not> ends_upper_upper word"
    by (auto simp: ends_upper_upper_def class_simps)
  have filled: "word \<noteq> []" using a by auto
  then have lower: "ends_lower word \<longleftrightarrow> 97 \<le> last word \<and> last word \<le> 122"
    by (simp add: ends_lower_def class_simps)
  have upper: "has_upper character \<longleftrightarrow> list_ex (\<lambda>u. 65 \<le> u \<and> u \<le> 90) character"
    unfolding has_upper_def by (induction character) (simp_all add: class_simps)
  have "words_step (results, word) character =
        (if (ends_lower word \<and> has_upper character) \<or> ends_digit word \<noteq> has_digit character
         then (results @ [word], character)
         else (results, word @ character))"
    using a run filled by (auto simp: words_step_def flush_def)
  then show "words_step (results, word) character =
        (if (97 \<le> last word \<and> last word \<le> 122 \<and> list_ex (\<lambda>u. 65 \<le> u \<and> u \<le> 90) character)
            \<or> ends_digit word \<noteq> has_digit character
         then (results @ [word], character)
         else (results, word @ character))"
    by (simp only: lower upper conj_assoc)
next
  assume "list_all (\<lambda>u. u < 97 \<or> 122 < u) data"
  then have "\<not> has_lower data"
    by (induction data) (auto simp: has_lower_def class_simps)
  then show "toCamelCase cs data =
        concat (map (\<lambda>(index, word). capitalize cs index word)
          (enumerate 0 (words (toLowerCase cs data))))"
    by (simp add: toCamelCase_def)
qed

theorem case_rules_ascii_only_witness:
  "words_step ([], js ''e'') [0xC9] = ([], js ''e'' @ [0xC9])
   \<and> words_step ([], [0xE9]) (js ''E'') = ([], [0xE9] @ js ''E'')
   \<and> words_step ([], [0xC9] @ js ''A'') (js ''b'') = ([], [0xC9] @ js ''Ab'')
   \<and> words ([0xC9] @ js ''Ab'') = [[0xC9] @ js ''Ab'']
   \<and> words ([0xC9, 0xC9, 0xE9]) = [[0xC9, 0xC9, 0xE9]]
   \<and> toCamelCase latin1 ([0xE9] @ js ''AB'') = [0xE9] @ js ''ab''"
proof -
  have "words_step ([], js ''e'') [0xC9] = ([], js ''e'' @ [0xC9])"
    using case_rules_ascii_only [where character = "[0xC9]" and results = "[]" and word = "js ''e''"]
    by (simp add: words_simps)
  moreover have "words_step ([], [0xE9]) (js ''E'') = ([], [0xE9] @ js ''E'')"
    using case_rules_ascii_only [where character = "js ''E''" and results = "[]" and word = "[0xE9]"]
    by (simp add: words_simps)
  moreover have "words_step ([], [0xC9] @ js ''A'') (js ''b'') = ([], [0xC9] @ js ''Ab'')"
    using case_rules_ascii_only
      [where character = "js ''b''" and results = "[]" and word = "[0xC9] @ js ''A''"]
    by (simp add: words_simps)
  moreover have "words ([0xC9] @ js ''Ab'') = [[0xC9] @ js ''Ab'']"
    by (simp add: words_simps)
  moreover have "words ([0xC9, 0xC9, 0xE9]) = [[0xC9, 0xC9, 0xE9]]"
    by (simp add: words_simps)
  moreover have "toCamelCase latin1 ([0xE9] @ js ''AB'') = [0xE9] @ js ''ab''"
    using case_rules_ascii_only [where data = "[0xE9] @ js ''AB''" and cs = latin1]
    by (simp add: camel_simps)
  ultimately show ?thesis by simp
qed

text \<open>
  C1. On macOS the constructor runs credential discovery whatever \<open>useSocketOnly\<close> is.
  With \<open>useSocketOnly: true\<close> and no credential files, construction is aborted by the
  discovery error; with the files in place the client dispatches over the Unix socket
  and yet holds \<open>adapterPort\<close> and \<open>adapterPassword\<close>.
\<close>

theorem constructor_socket_only_reads_credentials:
  "constructor mac_without_proof (Some socket_only)
     = Inl (Error (js ''Failed to read credentials: ENOENT: no such file or directory''))
   \<and> (\<exists>this. constructor mac_with_proof (Some socket_only) = Inr this
        \<and> environment this = Macos \<and> useSocketOnly this
        \<and> fetch this = SocketFetch (js ''/var/run/tailscaled.socket'')
        \<and> adapterPort this = Some 12345 \<and> adapterPassword this = Some (js ''deadbeef''))"
proof
  show "constructor mac_without_proof (Some socket_only)
     = Inl (Error (js ''Failed to read credentials: ENOENT: no such file or directory''))"
    unfolding constructor_def subnets_added
    by (simp add: world_simps env_simps cred_simps)
  show "\<exists>this. constructor mac_with_proof (Some socket_only) = Inr this
        \<and> environment this = Macos \<and> useSocketOnly this
        \<and> fetch this = SocketFetch (js ''/var/run/tailscaled.socket'')
        \<and> adapterPort this = Some 12345 \<and> adapterPassword this = Some (js ''deadbeef'')"
    by (simp add: mac_with_proof_client socket_only_def)
qed

text \<open>
  C2. \<open>incrementCounter\<close> and \<open>getWaitingFile\<close> call the \<open>fetch\<close> of undici directly,
  not the dispatch function built at construction. In socket mode their requests carry no
  Unix-socket dispatcher, where those of \<open>logout\<close> and \<open>deleteWaitingFile\<close> carry it; in
  macOS TCP mode their requests carry neither the \<open>Authorization\<close> nor the \<open>Host\<close>
  header, which the request of \<open>logout\<close> carries.
\<close>

theorem raw_fetch_bypasses_dispatch:
  "(case constructor linux_machine (Some socket_only) of
      Inl e \<Rightarrow> False
    | Inr this \<Rightarrow>
        map dispatcher (snd (logout answer this)) = [Some (js ''/var/run/tailscaled.socket'')]
        \<and> map dispatcher (snd (deleteWaitingFile answer this (js ''a.txt'')))
            = [Some (js ''/var/run/tailscaled.socket'')]
        \<and> map dispatcher (snd (incrementCounter answer this name (Finite 1))) = [None]
        \<and> map dispatcher (snd (getWaitingFile answer this (js ''a.txt''))) = [None])
   \<and> (case constructor mac_with_proof None of
      Inl e \<Rightarrow> False
    | Inr this \<Rightarrow>
        map req_headers (snd (logout answer this))
            = [[(js ''Authorization'', Basic (js '':deadbeef'')),
                (js ''Host'', Text (js ''local-tailscaled.sock''))]]
        \<and> map req_headers (snd (incrementCounter answer this name (Finite 1)))
            = [[(js ''Content-Type'', Text (js ''application/json''))]]
        \<and> map req_headers (snd (getWaitingFile answer this (js ''a.txt''))) = [[]])"
proof -
  have enc: "encodeURIComponent (js ''a.txt'') = Some (js ''a.txt'')"
    by (simp add: uri_simps)
  have pos: "\<not> less_than_zero (Finite 1)"
    by (simp add: less_than_zero_def)
  note requests = logout_requests deleteWaitingFile_requests [OF enc]
    incrementCounter_requests [OF pos] getWaitingFile_requests [OF enc]
  have headers: "fold (\<lambda>(name, val). set_property name val)
      [(js ''Authorization'', Basic (js '':deadbeef'')),
       (js ''Host'', Text (js ''local-tailscaled.sock''))] []
     = [(js ''Authorization'', Basic (js '':deadbeef'')),
        (js ''Host'', Text (js ''local-tailscaled.sock''))]"
    by (simp add: object_simps)
  show ?thesis
    unfolding linux_machine_client mac_with_proof_client requests
    using headers by (simp add: socket_only_def request_simps)
qed

text \<open>
  C3. \<open>isInTailscaleIpRange("fd7a:115c:a1e0::1")\<close> is \<open>false\<close> for every constructed
  client: \<open>check\<close> is called without a family, so the text is read as an IPv4 address,
  which it is not. Called with the family \<open>'ipv6'\<close>, \<open>check\<close> would find the address in
  the configured subnet \<open>fd7a:115c:a1e0::/48\<close>.
\<close>

theorem isInTailscaleIpRange_ipv6_rejected:
  "constructor w options = Inr this \<Longrightarrow>
     isInTailscaleIpRange this (js ''fd7a:115c:a1e0::1'') = None
     \<and> socket_address (js ''fd7a:115c:a1e0::1'') IPv4 = None
     \<and> check (tailscaleCidr this) (js ''fd7a:115c:a1e0::1'') IPv6"
  by (simp add: constructor_fields(1) range_simps ip_simps)

theorem isInTailscaleIpRange_ipv6_rejected_witness:
  "isInTailscaleIpRange (projr (constructor linux_machine None)) (js ''fd7a:115c:a1e0::1'') = None"
  using isInTailscaleIpRange_ipv6_rejected [OF linux_machine_client [of None]] by (simp add: linux_machine_client)

text \<open>
  C4. During the startup probe of a constructed client, a failed attempt with retry count
  \<open>n\<close> from 0 to 4 sets the timer of the next probe to \<open>5000 \<times> 1.5^n\<close> milliseconds;
  a failed attempt with retry count 5 exits the process and schedules nothing. When every
  attempt fails, the delays are 5000, 7500, 11250, 16875 and 25312.5, and the exit follows
  the sixth request.
\<close>

theorem connectWithRetry_backoff:
  assumes "constructor w options = Inr this"
  shows "(\<forall>n\<le>4. probe_fails answer this n \<longrightarrow>
            connectWithRetry answer this n =
              Request (this_fetch this (js ''/localapi/v0/status'') default_options) #
              SetTimeout (5000 * (3 / 2) ^ n) # connectWithRetry answer this (n + 1))
     \<and> (probe_fails answer this 5 \<longrightarrow>
            connectWithRetry answer this 5 =
              [Request (this_fetch this (js ''/localapi/v0/status'') default_options), Exit 1])
     \<and> ((\<forall>n\<le>5. probe_fails answer this n) \<longrightarrow>
            connectWithRetry answer this 0 =
              (let req = Request (this_fetch this (js ''/localapi/v0/status'') default_options)
               in [req, SetTimeout 5000, req, SetTimeout 7500, req, SetTimeout 11250,
                   req, SetTimeout 16875, req, SetTimeout 25312.5, req, Exit 1]))"
proof (intro conjI allI impI)
  note fields = constructor_fields(2,3) [OF assms]
  show "connectWithRetry answer this n =
          Request (this_fetch this (js ''/localapi/v0/status'') default_options) #
          SetTimeout (5000 * (3 / 2) ^ n) # connectWithRetry answer this (n + 1)"
    if "n \<le> 4" "probe_fails answer this n" for n
    using that probe_retry [of answer this n] by (simp add: fields)
  show last: "connectWithRetry answer this 5 =
          [Request (this_fetch this (js ''/localapi/v0/status'') default_options), Exit 1]"
    if "probe_fails answer this 5"
    using that probe_exit [of answer this 5] by (simp add: fields)
  show "connectWithRetry answer this 0 =
          (let req = Request (this_fetch this (js ''/localapi/v0/status'') default_options)
           in [req, SetTimeout 5000, req, SetTimeout 7500, req, SetTimeout 11250,
               req, SetTimeout 16875, req, SetTimeout 25312.5, req, Exit 1])"
    if all: "\<forall>n\<le>5. probe_fails answer this n"
  proof -
    have retry: "connectWithRetry answer this n =
          Request (this_fetch this (js ''/localapi/v0/status'') default_options) #
          SetTimeout (5000 * (3 / 2) ^ n) # connectWithRetry answer this (Suc n)"
      if "n < 5" for n
      using that all probe_retry [of answer this n] by (simp add: fields)
    have five: "Suc (Suc (Suc (Suc (Suc 0)))) = 5" by simp
    show ?thesis
      using all
      by (simp add: retry [of 0] retry [of "Suc 0"] retry [of "Suc (Suc 0)"]
          retry [of "Suc (Suc (Suc 0))"] retry [of "Suc (Suc (Suc (Suc 0)))"] five last Let_def)
  qed
qed

theorem connectWithRetry_backoff_witness:
  "connectWithRetry (\<lambda>n req. None) (projr (constructor linux_machine None)) 0 =
     (let req = Request \<lparr> url = js ''http://local-tailscaled.sock/localapi/v0/status'',
                           req_method = js ''GET'', req_headers = [], req_body = NoBody,
                           dispatcher = Some (js ''/var/run/tailscaled.socket'') \<rparr>
      in [req, SetTimeout 5000, req, SetTimeout 7500, req, SetTimeout 11250,
          req, SetTimeout 16875, req, SetTimeout 25312.5, req, Exit 1])"
  using connectWithRetry_backoff [OF linux_machine_client [of None], of "\<lambda>n req. None"]
  by (simp add: probe_fails_def linux_machine_client request_simps Let_def)

text \<open>
  C7. For a negative \<open>delta\<close>, \<open>incrementCounter\<close> throws \<open>negative delta not allowed\<close>
  and has issued no request. For a \<open>delta\<close> of zero or more, it issues the POST request
  that uploads the metric update.
\<close>

theorem incrementCounter_negative_delta:
  "(less_than_zero delta \<longrightarrow>
      incrementCounter answer this name delta
        = (Inl (Error (js ''negative delta not allowed'')), []))
   \<and> (delta = Infinity \<or> (\<exists>r. delta = Finite r \<and> 0 \<le> r) \<longrightarrow>
      snd (incrementCounter answer this name delta)
        = [global_fetch (baseUrl this @ js ''/localapi/v0/upload-client-metrics'')
             \<lparr> opt_method = js ''POST'',
               opt_headers = [(js ''Content-Type'', Text (js ''application/json''))],
               opt_body = JsonText (JArray [JObject [(js ''name'', JString name),
                                                     (js ''type'', JString (js ''counter'')),
                                                     (js ''value'', JNumber delta)]]) \<rparr>])"
proof (intro conjI impI)
  assume "less_than_zero delta"
  then show "incrementCounter answer this name delta
        = (Inl (Error (js ''negative delta not allowed'')), [])"
    by (simp add: incrementCounter_def)
next
  assume "delta = Infinity \<or> (\<exists>r. delta = Finite r \<and> 0 \<le> r)"
  then have "\<not> less_than_zero delta"
    by (auto simp: less_than_zero_def)
  then show "snd (incrementCounter answer this name delta)
        = [global_fetch (baseUrl this @ js ''/localapi/v0/upload-client-metrics'')
             \<lparr> opt_method = js ''POST'',
               opt_headers = [(js ''Content-Type'', Text (js ''application/json''))],
               opt_body = JsonText (JArray [JObject [(js ''name'', JString name),
                                                     (js ''type'', JString (js ''counter'')),
                                                     (js ''value'', JNumber delta)]]) \<rparr>]"
    by (rule incrementCounter_requests)
qed

theorem incrementCounter_negative_delta_witness:
  "incrementCounter (\<lambda>req. None) (projr (constructor linux_machine None)) (js ''requests'')
      (Finite (- 1))
     = (Inl (Error (js ''negative delta not allowed'')), [])
   \<and> snd (incrementCounter (\<lambda>req. None) (projr (constructor linux_machine None))
        (js ''requests'') (Finite 3))
     = [\<lparr> url = js ''http://local-tailscaled.sock/localapi/v0/upload-client-metrics'',
          req_method = js ''POST'',
          req_headers = [(js ''Content-Type'', Text (js ''application/json''))],
          req_body = JsonText (JArray [JObject [(js ''name'', JString (js ''requests'')),
                                                (js ''type'', JString (js ''counter'')),
                                                (js ''value'', JNumber (Finite 3))]]),
          dispatcher = None \<rparr>]"
proof -
  let ?client = "projr (constructor linux_machine None)"
  have "incrementCounter (\<lambda>req. None) ?client (js ''requests'') (Finite (- 1))
     = (Inl (Error (js ''negative delta not allowed'')), [])"
    using incrementCounter_negative_delta
      [where delta = "Finite (- 1)" and answer = "\<lambda>req. None" and this = ?client
         and name = "js ''requests''"]
    by (simp add: less_than_zero_def)
  moreover have "snd (incrementCounter (\<lambda>req. None) ?client (js ''requests'') (Finite 3))
     = [global_fetch (baseUrl ?client @ js ''/localapi/v0/upload-client-metrics'')
          \<lparr> opt_method = js ''POST'',
            opt_headers = [(js ''Content-Type'', Text (js ''application/json''))],
            opt_body = JsonText (JArray [JObject [(js ''name'', JString (js ''requests'')),
                                                  (js ''type'', JString (js ''counter'')),
                                                  (js ''value'', JNumber (Finite 3))]]) \<rparr>]"
    using incrementCounter_negative_delta
      [where delta = "Finite 3" and answer = "\<lambda>req. None" and this = ?client
         and name = "js ''requests''"]
    by simp
  ultimately show ?thesis
    by (simp add: linux_machine_client request_simps)
qed

text \<open>
  C8. For every constructed client, \<open>isInTailscaleIpRange("100.64.0.1")\<close> returns
  \<open>"100.64.0.1"\<close>, \<open>isInTailscaleIpRange("8.8.8.8")\<close> returns \<open>false\<close>, and
  \<open>isInTailscaleIpRange("::ffff:100.64.0.1")\<close> returns the embedded \<open>"100.64.0.1"\<close>.
\<close>

theorem isInTailscaleIpRange_examples:
  "constructor w options = Inr this \<Longrightarrow>
     isInTailscaleIpRange this (js ''100.64.0.1'') = Some (js ''100.64.0.1'')
     \<and> isInTailscaleIpRange this (js ''8.8.8.8'') = None
     \<and> isInTailscaleIpRange this (js ''::ffff:100.64.0.1'') = Some (js ''100.64.0.1'')"
  by (simp add: constructor_fields(1) range_simps ip_simps)

theorem isInTailscaleIpRange_examples_witness:
  "isInTailscaleIpRange (projr (constructor linux_machine None)) (js ''100.64.0.1'') = Some (js ''100.64.0.1'')
   \<and> isInTailscaleIpRange (projr (constructor linux_machine None)) (js ''8.8.8.8'') = None
   \<and> isInTailscaleIpRange (projr (constructor linux_machine None)) (js ''::ffff:100.64.0.1'')
       = Some (js ''100.64.0.1'')"
  using isInTailscaleIpRange_examples [OF linux_machine_client [of None]] by (simp add: linux_machine_client)

text \<open>
  C9 (as amended). Whenever \<open>/.dockerenv\<close> exists, or \<open>KUBERNETES_SERVICE_HOST\<close> is set
  to a non-empty value, or on Linux \<open>/proc/1/cgroup\<close> can be read and mentions \<open>docker\<close>,
  \<open>kubepods\<close> or \<open>lxc\<close>, the environment is \<open>container\<close> whatever the platform is; the
  constructor then succeeds without credential discovery, holds no credentials and
  dispatches over the Unix socket.
\<close>

theorem container_indicator_gives_container:
  assumes "existsSync w (js ''/.dockerenv'')
     \<or> (\<exists>v. env w (js ''KUBERNETES_SERVICE_HOST'') = Some v \<and> v \<noteq> [])
     \<or> (platform w = js ''linux'' \<and>
        (\<exists>content. readFileSync w (js ''/proc/1/cgroup'') = Inr content \<and>
           (string_includes content (js ''docker'') \<or> string_includes content (js ''kubepods'')
            \<or> string_includes content (js ''lxc''))))"
  shows "interrogateEnvironment w = Container
     \<and> (\<exists>this. constructor w options = Inr this \<and> environment this = Container
          \<and> adapterPort this = None \<and> adapterPassword this = None
          \<and> fetch this = SocketFetch (socketPath this))"
proof -
  have "isRunningInContainer w"
    using assms by (auto simp: isRunningInContainer_def simp del: js_Cons)
  then have env: "interrogateEnvironment w = Container"
    by (simp add: interrogateEnvironment_def)
  then obtain this where made: "constructor w options = Inr this"
    using constructor_not_macos [of w options] by auto
  have "environment this = Container"
    using constructor_fields(4) [OF made] env by simp
  moreover have "adapterPort this = None" "adapterPassword this = None"
    using constructor_credentials [OF made] calculation by simp_all
  moreover have "fetch this = SocketFetch (socketPath this)"
    using constructor_fetch [OF made] calculation by simp
  ultimately show ?thesis using env made by simp
qed

theorem container_indicator_gives_container_witness:
  "existsSync mac_in_docker (js ''/.dockerenv'')
   \<and> platform mac_in_docker = js ''darwin''
   \<and> interrogateEnvironment mac_in_docker = Container
   \<and> (\<exists>this. constructor mac_in_docker None = Inr this \<and> environment this = Container
        \<and> adapterPort this = None \<and> adapterPassword this = None
        \<and> fetch this = SocketFetch (socketPath this))"
proof -
  have "existsSync mac_in_docker (js ''/.dockerenv'')"
    by (simp add: mac_in_docker_def)
  then show ?thesis
    using container_indicator_gives_container [of mac_in_docker None] by (simp add: mac_in_docker_def)
qed

text \<open>
  C9 (as stated). A variable \<open>KUBERNETES_SERVICE_HOST\<close> that is set to the empty string is
  not taken for a container indicator: on such a darwin machine the environment is
  \<open>macos\<close>, and the constructor runs credential discovery.
\<close>

theorem empty_kubernetes_variable_not_container:
  "env mac_empty_variable (js ''KUBERNETES_SERVICE_HOST'') = Some []
   \<and> interrogateEnvironment mac_empty_variable = Macos
   \<and> constructor mac_empty_variable None
       = Inl (Error (js ''Failed to read credentials: ENOENT: no such file or directory''))"
  unfolding constructor_def subnets_added
  by (simp add: world_simps env_simps cred_simps)

end
